theory Spec2Isabelle
  imports Main "HOL-Library.Multiset"
begin

section \<open>The samtools dispatcher of pysam\<close>

text \<open>
  The development embeds \<^verbatim>\<open>src/pysam/__init__.py\<close>: the exception class
  \<^verbatim>\<open>SamtoolsError\<close>, the class \<^verbatim>\<open>SamtoolsDispatcher\<close> with its methods
  \<^verbatim>\<open>__init__\<close>, \<^verbatim>\<open>__call__\<close>, \<^verbatim>\<open>getMessages\<close> and \<^verbatim>\<open>usage\<close>, and the table
  \<^verbatim>\<open>SAMTOOLS_DISPATCH\<close>.

  The native routine \<^verbatim>\<open>csamtools._samtools_dispatch\<close> is not part of the file. It is
  taken as a parameter: a function from the command identifier and the argument tuple
  to the triple (return code, stderr lines, stdout text).
\<close>

subsection \<open>Values\<close>

text \<open>\<^verbatim>\<open>SamtoolsError(value)\<close>: the exception carries one message.\<close>

datatype SamtoolsError = SamtoolsError (error_value: string)

text \<open>
  What \<^verbatim>\<open>__call__\<close> returns is either the captured stdout text or whatever a parser
  made of it. A parser may return any value, a string included.
\<close>

datatype 'v pyval = Str string | Obj 'v

type_synonym executor = "string \<Rightarrow> string list \<Rightarrow> int \<times> string list \<times> string"

type_synonym 'v parser_binding = "string list \<times> (string \<Rightarrow> 'v pyval)"

text \<open>Keyword arguments, each with the truth value that \<^verbatim>\<open>not\<close> tests.\<close>

type_synonym kwargs = "string \<rightharpoonup> bool"

record 'v SamtoolsDispatcher =
  dispatch :: string
  parsers :: "'v parser_binding list option"
  stderr :: "string list"

subsection \<open>String operations of Python used by the dispatcher\<close>

text \<open>\<^verbatim>\<open>x.startswith(p)\<close>\<close>

fun startswith :: "string \<Rightarrow> string \<Rightarrow> bool" where
  "startswith x [] = True"
| "startswith [] (p # ps) = False"
| "startswith (c # cs) (p # ps) = (c = p \<and> startswith cs ps)"

text \<open>\<^verbatim>\<open>sep.join(xs)\<close>\<close>

fun join :: "string \<Rightarrow> string list \<Rightarrow> string" where
  "join sep [] = []"
| "join sep [x] = x"
| "join sep (x # y # ys) = x @ sep @ join sep (y # ys)"

text \<open>The decimal digits of a natural number, most significant first.\<close>

fun digit_chars :: "nat \<Rightarrow> string" where
  "digit_chars n =
     (if n < 10 then [''0123456789'' ! n]
      else digit_chars (n div 10) @ [''0123456789'' ! (n mod 10)])"

declare digit_chars.simps [simp del]

text \<open>\<^verbatim>\<open>'%i' % i\<close>: a minus sign for a negative number, then the digits.\<close>

definition format_i :: "int \<Rightarrow> string" where
  "format_i i = (if i < 0 then CHR ''-'' # digit_chars (nat (- i)) else digit_chars (nat i))"

definition newline :: string where
  "newline = [CHR 0x0A]"

subsection \<open>The dispatcher\<close>

text \<open>\<^verbatim>\<open>__init__(self, dispatch, parsers)\<close>\<close>

definition init :: "string \<Rightarrow> 'v parser_binding list option \<Rightarrow> 'v SamtoolsDispatcher" where
  "init d ps = \<lparr>dispatch = d, parsers = ps, stderr = []\<rparr>"

text \<open>
  The condition of the list comprehension of \<^verbatim>\<open>__call__\<close>: a line is kept unless it
  starts with one of the four prefixes.
\<close>

definition benign :: "string \<Rightarrow> bool" where
  "benign x \<longleftrightarrow>
     startswith x ''[sam_header_read2]'' \<or>
     startswith x ''[bam_index_load]'' \<or>
     startswith x ''[bam_sort_core]'' \<or>
     startswith x ''[samopen] SAM header is present''"

text \<open>
  The inner \<^verbatim>\<open>for option in options\<close> loop with its \<^verbatim>\<open>else\<close> branch: the loop
  breaks at the first option that is not among the arguments, and the \<^verbatim>\<open>else\<close>
  branch runs when it did not break.
\<close>

fun options_present :: "string list \<Rightarrow> string list \<Rightarrow> bool" where
  "options_present [] args = True"
| "options_present (option # options) args =
     (if option \<notin> set args then False else options_present options args)"

text \<open>
  The outer \<^verbatim>\<open>for options, parser in self.parsers\<close> loop: the first binding whose
  inner loop did not break returns \<^verbatim>\<open>parser(stdout)\<close>; \<open>None\<close> when the loop ends
  without returning.
\<close>

fun apply_parsers :: "'v parser_binding list \<Rightarrow> string list \<Rightarrow> string \<Rightarrow> 'v pyval option" where
  "apply_parsers [] args out = None"
| "apply_parsers ((options, parser) # rest) args out =
     (if options_present options args then Some (parser out)
      else apply_parsers rest args out)"

text \<open>\<^verbatim>\<open>kwargs.get("raw")\<close>, as a truth value.\<close>

definition kwargs_get_raw :: "kwargs \<Rightarrow> bool" where
  "kwargs_get_raw kw = (case kw ''raw'' of None \<Rightarrow> False | Some b \<Rightarrow> b)"

text \<open>The truth value of \<^verbatim>\<open>self.parsers\<close>: neither \<^verbatim>\<open>None\<close> nor empty.\<close>

definition parsers_truthy :: "'v parser_binding list option \<Rightarrow> bool" where
  "parsers_truthy ps = (case ps of None \<Rightarrow> False | Some bs \<Rightarrow> bs \<noteq> [])"

text \<open>
  \<^verbatim>\<open>__call__(self, *args, **kwargs)\<close>. The result is the outcome (\<open>Inl\<close> the raised
  exception, \<open>Inr\<close> the returned value) and the dispatcher after the call.
\<close>

definition call ::
  "executor \<Rightarrow> 'v SamtoolsDispatcher \<Rightarrow> string list \<Rightarrow> kwargs
     \<Rightarrow> (SamtoolsError + 'v pyval) \<times> 'v SamtoolsDispatcher" where
  "call exec self args kw =
     (case exec (dispatch self) args of (retval, errlines, out) \<Rightarrow>
        if retval \<noteq> 0 then
          (Inl (SamtoolsError (''csamtools returned with error '' @ format_i retval
                                @ '': '' @ join newline errlines)), self)
        else
          let self' = self\<lparr>stderr := errlines\<rparr>;
              suspicious = filter (\<lambda>x. \<not> benign x) errlines
          in if suspicious \<noteq> [] then (Inl (SamtoolsError (join newline suspicious)), self')
             else if \<not> kwargs_get_raw kw \<and> out \<noteq> [] \<and> parsers_truthy (parsers self) then
               (case apply_parsers (the (parsers self)) args out of
                  Some v \<Rightarrow> (Inr v, self')
                | None \<Rightarrow> (Inr (Str out), self'))
             else (Inr (Str out), self'))"

text \<open>\<^verbatim>\<open>getMessages(self)\<close>\<close>

definition getMessages :: "'v SamtoolsDispatcher \<Rightarrow> string list" where
  "getMessages self = stderr self"

text \<open>
  \<^verbatim>\<open>usage(self)\<close>: the executor is called with the command identifier alone, its
  argument tuple taking the default, the empty tuple. The method has no \<^verbatim>\<open>raise\<close>
  and assigns no attribute.
\<close>

definition usage ::
  "executor \<Rightarrow> 'v SamtoolsDispatcher \<Rightarrow> (SamtoolsError + string) \<times> 'v SamtoolsDispatcher" where
  "usage exec self =
     (case exec (dispatch self) [] of (retval, errlines, out) \<Rightarrow>
        (Inr (join [] errlines), self))"

subsection \<open>The command table\<close>

text \<open>
  \<^verbatim>\<open>SAMTOOLS_DISPATCH\<close>: the exported name, the samtools command and the parser list
  (\<^verbatim>\<open>None\<close> for every command of the table).
\<close>

definition SAMTOOLS_DISPATCH :: "(string \<times> string \<times> 'v parser_binding list option) list" where
  "SAMTOOLS_DISPATCH =
     [(''view'', ''view'', None),
      (''sort'', ''sort'', None),
      (''mpileup'', ''mpileup'', None),
      (''depth'', ''depth'', None),
      (''faidx'', ''faidx'', None),
      (''tview'', ''tview'', None),
      (''index'', ''index'', None),
      (''idxstats'', ''idxstats'', None),
      (''fixmate'', ''fixmate'', None),
      (''flagstat'', ''flagstat'', None),
      (''calmd'', ''calmd'', None),
      (''merge'', ''merge'', None),
      (''rmdup'', ''rmdup'', None),
      (''reheader'', ''reheader'', None),
      (''cat'', ''cat'', None),
      (''targetcut'', ''targetcut'', None),
      (''phase'', ''phase'', None),
      (''samimport'', ''import'', None),
      (''bam2fq'', ''bam2fq'', None)]"

text \<open>
  The loop over the table: one dispatcher for each key, stored under the key among the
  module's globals.
\<close>

definition samtools_commands :: "string \<rightharpoonup> 'v SamtoolsDispatcher" where
  "samtools_commands =
     map_of (map (\<lambda>(key, cmd, parser). (key, init cmd parser)) SAMTOOLS_DISPATCH)"

subsection \<open>Sequences of invocations\<close>

text \<open>
  A caller invoking one dispatcher several times, each time with the executor as it
  answers then, with its own arguments, catching whatever is raised: the dispatcher
  after the last invocation.
\<close>

fun call_seq ::
  "'v SamtoolsDispatcher \<Rightarrow> (executor \<times> string list \<times> kwargs) list \<Rightarrow> 'v SamtoolsDispatcher" where
  "call_seq self [] = self"
| "call_seq self ((exec, args, kw) # rest) = call_seq (snd (call exec self args kw)) rest"

text \<open>
  The stderr lines of the latest invocation of a sequence whose executor returned
  code 0, if there is one.
\<close>

definition latest_zero_exit ::
  "string \<Rightarrow> (executor \<times> string list \<times> kwargs) list \<Rightarrow> string list option" where
  "latest_zero_exit cmd invs =
     map_option (\<lambda>(exec, args, kw). fst (snd (exec cmd args)))
       (find (\<lambda>(exec, args, kw). fst (exec cmd args) = 0) (rev invs))"

subsection \<open>Facts about the loops and the branches of the call\<close>

lemma options_present_iff: "options_present options args \<longleftrightarrow> set options \<subseteq> set args"
  by (induction options) auto

lemma apply_parsers_find:
  "apply_parsers ps args out =
     map_option (\<lambda>(options, parser). parser out)
       (find (\<lambda>(options, parser). set options \<subseteq> set args) ps)"
  by (induction ps args out rule: apply_parsers.induct) (simp_all add: options_present_iff)

lemma join_empty_sep: "join [] xs = concat xs"
proof (induction xs)
  case Nil
  show ?case by simp
next
  case (Cons x xs)
  then show ?case by (cases xs) simp_all
qed

lemma call_nonzero:
  assumes "exec (dispatch self) args = (retval, errlines, out)" and "retval \<noteq> 0"
  shows "call exec self args kw =
    (Inl (SamtoolsError (''csamtools returned with error '' @ format_i retval
                          @ '': '' @ join newline errlines)), self)"
  using assms by (simp add: call_def)

lemma call_suspicious:
  assumes "exec (dispatch self) args = (0, errlines, out)"
    and "filter (\<lambda>x. \<not> benign x) errlines \<noteq> []"
  shows "call exec self args kw =
    (Inl (SamtoolsError (join newline (filter (\<lambda>x. \<not> benign x) errlines))),
     self\<lparr>stderr := errlines\<rparr>)"
  using assms by (simp add: call_def Let_def)

lemma call_clean:
  assumes "exec (dispatch self) args = (0, errlines, out)"
    and "filter (\<lambda>x. \<not> benign x) errlines = []"
  shows "call exec self args kw =
    (Inr (if \<not> kwargs_get_raw kw \<and> out \<noteq> [] \<and> parsers_truthy (parsers self)
          then (case apply_parsers (the (parsers self)) args out of
                  Some v \<Rightarrow> v | None \<Rightarrow> Str out)
          else Str out),
     self\<lparr>stderr := errlines\<rparr>)"
  using assms by (simp add: call_def Let_def split: option.splits)

lemma call_dispatch: "dispatch (snd (call exec self args kw)) = dispatch self"
  by (cases "exec (dispatch self) args")
     (simp add: call_def Let_def split: option.splits)

lemma call_stderr:
  "stderr (snd (call exec self args kw)) =
     (if fst (exec (dispatch self) args) = 0 then fst (snd (exec (dispatch self) args))
      else stderr self)"
  by (cases "exec (dispatch self) args")
     (simp add: call_def Let_def split: option.splits)

lemma call_seq_snoc:
  "call_seq self (invs @ [(exec, args, kw)]) = snd (call exec (call_seq self invs) args kw)"
  by (induction self invs rule: call_seq.induct) simp_all

lemma call_seq_dispatch: "dispatch (call_seq self invs) = dispatch self"
  by (induction self invs rule: call_seq.induct) (simp_all add: call_dispatch)

lemma flagstat_registered:
  "(samtools_commands ''flagstat'' :: 'v SamtoolsDispatcher option) = Some (init ''flagstat'' None)"
  by (simp add: samtools_commands_def SAMTOOLS_DISPATCH_def)

lemma benign_examples:
  "benign ''[bam_index_load] foo''"
  "benign ''[sam_header_read2] 2 sequences loaded.''"
  "benign ''[bam_sort_core] merging''"
  "\<not> benign ''error: truncated file''"
  "\<not> benign ''[main] fail to open''"
  by (simp_all add: benign_def)

section \<open>The claims\<close>

text \<open>
  C1. When the executor returns a non-zero code, the call raises \<^verbatim>\<open>SamtoolsError\<close>
  whatever the stderr lines are. The message is the fixed text followed by the code in
  decimal, a colon and all the stderr lines joined by newlines: no line has been
  filtered out, the benign ones are in the message too.
\<close>

theorem C1_nonzero_exit_raises:
  assumes "exec (dispatch self) args = (retval, errlines, out)" and "retval \<noteq> 0"
  shows "fst (call exec self args kw) =
           Inl (SamtoolsError (''csamtools returned with error '' @ format_i retval
                                 @ '': '' @ join newline errlines))"
  using assms by (simp add: call_def)

theorem C1_nonzero_exit_raises_witness:
  "(\<lambda>cmd args. (1, [''[bam_index_load] foo'', ''error: truncated file''], []))
       (dispatch (init ''view'' None :: unit SamtoolsDispatcher)) [''in.bam'']
     = (1, [''[bam_index_load] foo'', ''error: truncated file''], [])
   \<and> (1::int) \<noteq> 0
   \<and> fst (call (\<lambda>cmd args. (1, [''[bam_index_load] foo'', ''error: truncated file''], []))
             (init ''view'' None :: unit SamtoolsDispatcher) [''in.bam''] Map.empty)
       = Inl (SamtoolsError (''csamtools returned with error 1: [bam_index_load] foo''
                               @ newline @ ''error: truncated file''))
   \<and> fst (call (\<lambda>cmd args. (- 139, [], ''partial output''))
             (init ''view'' None :: unit SamtoolsDispatcher) [''in.bam''] Map.empty)
       = Inl (SamtoolsError ''csamtools returned with error -139: '')"
  using
    C1_nonzero_exit_raises
      [of "\<lambda>cmd args. (1, [''[bam_index_load] foo'', ''error: truncated file''], [])"
          "init ''view'' None :: unit SamtoolsDispatcher" "[''in.bam'']" 1
          "[''[bam_index_load] foo'', ''error: truncated file'']" "[]" Map.empty]
    C1_nonzero_exit_raises
      [of "\<lambda>cmd args. (- 139, [], ''partial output'')"
          "init ''view'' None :: unit SamtoolsDispatcher" "[''in.bam'']" "- 139"
          "[]" "''partial output''" Map.empty]
  by (simp add: format_i_def digit_chars.simps)

text \<open>
  C2. When the executor returns code 0 and some stderr line starts with none of the
  benign prefixes, the call raises \<^verbatim>\<open>SamtoolsError\<close>, and the message is the lines
  without a benign prefix, in their order, joined by newlines.
\<close>

theorem C2_suspicious_stderr_raises:
  assumes "exec (dispatch self) args = (0, errlines, out)"
    and "\<exists>x \<in> set errlines. \<not> benign x"
  shows "fst (call exec self args kw) =
           Inl (SamtoolsError (join newline (filter (\<lambda>x. \<not> benign x) errlines)))"
proof -
  from assms(2) have "filter (\<lambda>x. \<not> benign x) errlines \<noteq> []"
    by (simp add: filter_empty_conv)
  with assms(1) show ?thesis
    by (simp add: call_suspicious)
qed

theorem C2_suspicious_stderr_raises_witness:
  "(\<lambda>cmd args. (0, [''[bam_index_load] foo'', ''oops one'', ''[bam_sort_core] x'', ''oops two''], ''data''))
       (dispatch (init ''sort'' None :: unit SamtoolsDispatcher)) [''in.bam'']
     = (0, [''[bam_index_load] foo'', ''oops one'', ''[bam_sort_core] x'', ''oops two''], ''data'')
   \<and> (\<exists>x \<in> set [''[bam_index_load] foo'', ''oops one'', ''[bam_sort_core] x'', ''oops two'']. \<not> benign x)
   \<and> fst (call (\<lambda>cmd args. (0, [''[bam_index_load] foo'', ''oops one'', ''[bam_sort_core] x'', ''oops two''], ''data''))
             (init ''sort'' None :: unit SamtoolsDispatcher) [''in.bam''] Map.empty)
       = Inl (SamtoolsError (''oops one'' @ newline @ ''oops two''))"
  using C2_suspicious_stderr_raises
    [of "\<lambda>cmd args. (0, [''[bam_index_load] foo'', ''oops one'', ''[bam_sort_core] x'', ''oops two''], ''data'')"
        "init ''sort'' None :: unit SamtoolsDispatcher" "[''in.bam'']"
        "[''[bam_index_load] foo'', ''oops one'', ''[bam_sort_core] x'', ''oops two'']" "''data''" Map.empty]
  by (simp add: benign_def)

text \<open>
  C3. When the executor returns code 0 and every stderr line starts with a benign
  prefix, the call raises nothing, and what it returns is determined: the stdout text
  itself when the dispatcher has no parser list, when the raw flag is set or when
  stdout is empty; otherwise what the parser of the first registered binding whose
  options are all among the arguments makes of stdout, and the stdout text when no
  binding is such.
\<close>

theorem C3_benign_stderr_returns:
  assumes "exec (dispatch self) args = (0, errlines, out)"
    and "\<forall>x \<in> set errlines. benign x"
  shows "fst (call exec self args kw) =
           Inr (case parsers self of
                  None \<Rightarrow> Str out
                | Some bindings \<Rightarrow>
                    if kwargs_get_raw kw \<or> out = [] then Str out
                    else (case find (\<lambda>(options, parser). set options \<subseteq> set args) bindings of
                            Some (options, parser) \<Rightarrow> parser out
                          | None \<Rightarrow> Str out))"
proof -
  from assms(2) have clean: "filter (\<lambda>x. \<not> benign x) errlines = []"
    by (simp add: filter_empty_conv)
  note res = call_clean [of exec self args errlines out kw, OF assms(1) clean]
  show ?thesis
  proof (cases "parsers self")
    case None
    with res show ?thesis
      by (simp add: parsers_truthy_def)
  next
    case (Some bindings)
    show ?thesis
    proof (cases "bindings = []")
      case True
      with res Some show ?thesis
        by (simp add: parsers_truthy_def)
    next
      case False
      with Some have truthy: "parsers_truthy (parsers self)"
        by (simp add: parsers_truthy_def)
      show ?thesis
      proof (cases "kwargs_get_raw kw \<or> out = []")
        case True
        with res Some show ?thesis by auto
      next
        case False
        with res Some truthy show ?thesis
          by (simp add: apply_parsers_find split: option.splits)
      qed
    qed
  qed
qed

theorem C3_benign_stderr_returns_witness:
  "fst (call (\<lambda>cmd args. (0, [''[bam_index_load] foo''], ''120 total'' @ newline))
          (the (samtools_commands ''flagstat'') :: unit SamtoolsDispatcher)
          [''in.bam''] Map.empty)
     = Inr (Str (''120 total'' @ newline))
   \<and> fst (call (\<lambda>cmd args. (0, [''[samopen] SAM header is present: 2 sequences.''], ''abc''))
          (init ''pileup'' (Some [([''-c''], \<lambda>s. Obj (length s)), ([], \<lambda>s. Str (rev s))]))
          [''in.bam'', ''-c''] Map.empty)
     = Inr (Obj 3)
   \<and> fst (call (\<lambda>cmd args. (0, [''[sam_header_read2] 2 sequences loaded.'', ''[bam_sort_core] x''], ''abc''))
          (init ''pileup'' (Some [([''-c''], \<lambda>s. Obj (length s)), ([], \<lambda>s. Str (rev s))]))
          [''in.bam''] [''raw'' \<mapsto> False])
     = Inr (Str ''cba'')
   \<and> fst (call (\<lambda>cmd args. (0, [], ''abc''))
          (init ''pileup'' (Some [([''-c''], \<lambda>s. Obj (length s))]))
          [''in.bam'', ''-c''] [''raw'' \<mapsto> True])
     = Inr (Str ''abc'')"
  using
    C3_benign_stderr_returns
      [of "\<lambda>cmd args. (0, [''[bam_index_load] foo''], ''120 total'' @ newline)"
          "the (samtools_commands ''flagstat'') :: unit SamtoolsDispatcher"
          "[''in.bam'']" "[''[bam_index_load] foo'']" "''120 total'' @ newline" Map.empty]
    C3_benign_stderr_returns
      [of "\<lambda>cmd args. (0, [''[samopen] SAM header is present: 2 sequences.''], ''abc'')"
          "init ''pileup'' (Some [([''-c''], \<lambda>s. Obj (length s)), ([], \<lambda>s. Str (rev s))])"
          "[''in.bam'', ''-c'']" "[''[samopen] SAM header is present: 2 sequences.'']" "''abc''"
          Map.empty]
    C3_benign_stderr_returns
      [of "\<lambda>cmd args. (0, [''[sam_header_read2] 2 sequences loaded.'', ''[bam_sort_core] x''], ''abc'')"
          "init ''pileup'' (Some [([''-c''], \<lambda>s. Obj (length s)), ([], \<lambda>s. Str (rev s))])"
          "[''in.bam'']" "[''[sam_header_read2] 2 sequences loaded.'', ''[bam_sort_core] x'']" "''abc''"
          "[''raw'' \<mapsto> False]"]
    C3_benign_stderr_returns
      [of "\<lambda>cmd args. (0, [], ''abc'')"
          "init ''pileup'' (Some [([''-c''], \<lambda>s. Obj (length s))])"
          "[''in.bam'', ''-c'']" "[]" "''abc''" "[''raw'' \<mapsto> True]"]
  by (simp add: flagstat_registered init_def benign_def kwargs_get_raw_def)

text \<open>
  C4. A call that raises nothing, on a dispatcher with a non-empty list of bindings,
  with non-empty stdout and without the raw flag, returns what the parser of the first
  binding of the list whose options are all among the arguments makes of stdout, and
  stdout itself when there is no such binding. With the bindings B1 (requiring
  \<^verbatim>\<open>-c\<close>) and then B2 (requiring nothing), B1's parser is applied when \<^verbatim>\<open>-c\<close> is
  among the arguments and B2's when it is not.
\<close>

theorem C4_first_matching_parser:
  assumes "exec (dispatch self) args = (0, errlines, out)"
    and "\<forall>x \<in> set errlines. benign x"
    and "parsers self = Some bindings" and "bindings \<noteq> []"
    and "out \<noteq> []" and "\<not> kwargs_get_raw kw"
  shows "fst (call exec self args kw) =
           Inr (case find (\<lambda>(options, parser). set options \<subseteq> set args) bindings of
                  Some (options, parser) \<Rightarrow> parser out
                | None \<Rightarrow> Str out)
         \<and> (bindings = [([''-c''], t1), ([], t2)] \<longrightarrow>
              fst (call exec self args kw) = Inr (if ''-c'' \<in> set args then t1 out else t2 out))"
proof -
  from assms(2) have clean: "filter (\<lambda>x. \<not> benign x) errlines = []"
    by (simp add: filter_empty_conv)
  from assms(3,4) have truthy: "parsers_truthy (parsers self)"
    by (simp add: parsers_truthy_def)
  from call_clean [of exec self args errlines out kw, OF assms(1) clean] truthy assms(3,5,6)
  have first: "fst (call exec self args kw) =
           Inr (case find (\<lambda>(options, parser). set options \<subseteq> set args) bindings of
                  Some (options, parser) \<Rightarrow> parser out
                | None \<Rightarrow> Str out)"
    by (simp add: apply_parsers_find split: option.splits)
  have "fst (call exec self args kw) = Inr (if ''-c'' \<in> set args then t1 out else t2 out)"
    if "bindings = [([''-c''], t1), ([], t2)]"
    using first that by simp
  with first show ?thesis by blast
qed

theorem C4_first_matching_parser_witness:
  "fst (call (\<lambda>cmd args. (0, [''[sam_header_read2] 2 sequences loaded.''], ''chr1 10 A''))
          (init ''pileup'' (Some [([''-c''], \<lambda>s. Obj (length s)), ([], \<lambda>s. Str (rev s))]))
          [''-c'', ''in.bam''] Map.empty)
     = Inr (Obj 9)
   \<and> fst (call (\<lambda>cmd args. (0, [''[sam_header_read2] 2 sequences loaded.''], ''chr1 10 A''))
          (init ''pileup'' (Some [([''-c''], \<lambda>s. Obj (length s)), ([], \<lambda>s. Str (rev s))]))
          [''in.bam''] Map.empty)
     = Inr (Str ''A 01 1rhc'')
   \<and> fst (call (\<lambda>cmd args. (0, [], ''chr1 10 A''))
          (init ''pileup'' (Some [([''-c'', ''-f''], \<lambda>s. Obj (length s))]))
          [''-c'', ''in.bam''] Map.empty)
     = Inr (Str ''chr1 10 A'')"
  using
    C4_first_matching_parser
      [of "\<lambda>cmd args. (0, [''[sam_header_read2] 2 sequences loaded.''], ''chr1 10 A'')"
          "init ''pileup'' (Some [([''-c''], \<lambda>s. Obj (length s)), ([], \<lambda>s. Str (rev s))])"
          "[''-c'', ''in.bam'']" "[''[sam_header_read2] 2 sequences loaded.'']" "''chr1 10 A''"
          "[([''-c''], \<lambda>s. Obj (length s)), ([], \<lambda>s. Str (rev s))]" Map.empty
          "\<lambda>s. Obj (length s)" "\<lambda>s. Str (rev s)"]
    C4_first_matching_parser
      [of "\<lambda>cmd args. (0, [''[sam_header_read2] 2 sequences loaded.''], ''chr1 10 A'')"
          "init ''pileup'' (Some [([''-c''], \<lambda>s. Obj (length s)), ([], \<lambda>s. Str (rev s))])"
          "[''in.bam'']" "[''[sam_header_read2] 2 sequences loaded.'']" "''chr1 10 A''"
          "[([''-c''], \<lambda>s. Obj (length s)), ([], \<lambda>s. Str (rev s))]" Map.empty
          "\<lambda>s. Obj (length s)" "\<lambda>s. Str (rev s)"]
    C4_first_matching_parser
      [of "\<lambda>cmd args. (0, [], ''chr1 10 A'')"
          "init ''pileup'' (Some [([''-c'', ''-f''], \<lambda>s. Obj (length s))])"
          "[''-c'', ''in.bam'']" "[]" "''chr1 10 A''"
          "[([''-c'', ''-f''], \<lambda>s. Obj (length s))]" Map.empty]
  by (simp add: init_def benign_def kwargs_get_raw_def)

text \<open>
  C5, as stated, says that every invocation, returning or raising, overwrites the
  retained stderr lines with those of the invocation. The raise on a non-zero code
  comes before the assignment to \<^verbatim>\<open>self.stderr\<close>, and leaves the retained lines as
  they were: here a fresh dispatcher still holds the empty list.
\<close>

theorem C5_nonzero_exit_keeps_state:
  "stderr (snd (call (\<lambda>cmd args. (1, [''error: truncated file''], []))
                  (init ''view'' None :: unit SamtoolsDispatcher) [''in.bam''] Map.empty)) = []
   \<and> stderr (snd (call (\<lambda>cmd args. (1, [''error: truncated file''], []))
                  (init ''view'' None :: unit SamtoolsDispatcher) [''in.bam''] Map.empty))
       \<noteq> [''error: truncated file'']"
  by (simp add: call_def init_def)

text \<open>
  C5, amended. An invocation whose executor returns code 0, whether it returns or
  raises on a line without a benign prefix, replaces the retained stderr lines by the
  stderr lines of that invocation, unfiltered (nothing of the earlier lines is kept);
  an invocation whose executor returns a non-zero code leaves the retained lines
  unchanged.
\<close>

theorem C5_state_after_call:
  assumes "exec (dispatch self) args = (retval, errlines, out)"
  shows "stderr (snd (call exec self args kw)) = (if retval = 0 then errlines else stderr self)"
  using assms call_stderr [of exec self args kw] by simp

theorem C5_state_after_call_witness:
  "stderr (snd (call (\<lambda>cmd args. (0, [''[bam_index_load] a'', ''bad 1''], ''x''))
                  ((init ''view'' None :: unit SamtoolsDispatcher)\<lparr>stderr := [''old'']\<rparr>)
                  [''in.bam''] Map.empty))
     = [''[bam_index_load] a'', ''bad 1'']
   \<and> stderr (snd (call (\<lambda>cmd args. (0, [''[bam_index_load] a''], ''x''))
                  ((init ''view'' None :: unit SamtoolsDispatcher)\<lparr>stderr := [''old'']\<rparr>)
                  [''in.bam''] Map.empty))
     = [''[bam_index_load] a'']
   \<and> stderr (snd (call (\<lambda>cmd args. (3, [''bad 1''], ''x''))
                  ((init ''view'' None :: unit SamtoolsDispatcher)\<lparr>stderr := [''old'']\<rparr>)
                  [''in.bam''] Map.empty))
     = [''old'']"
  using
    C5_state_after_call
      [of "\<lambda>cmd args. (0, [''[bam_index_load] a'', ''bad 1''], ''x'')"
          "(init ''view'' None :: unit SamtoolsDispatcher)\<lparr>stderr := [''old'']\<rparr>"
          "[''in.bam'']" 0 "[''[bam_index_load] a'', ''bad 1'']" "''x''" Map.empty]
    C5_state_after_call
      [of "\<lambda>cmd args. (0, [''[bam_index_load] a''], ''x'')"
          "(init ''view'' None :: unit SamtoolsDispatcher)\<lparr>stderr := [''old'']\<rparr>"
          "[''in.bam'']" 0 "[''[bam_index_load] a'']" "''x''" Map.empty]
    C5_state_after_call
      [of "\<lambda>cmd args. (3, [''bad 1''], ''x'')"
          "(init ''view'' None :: unit SamtoolsDispatcher)\<lparr>stderr := [''old'']\<rparr>"
          "[''in.bam'']" 3 "[''bad 1'']" "''x''" Map.empty]
  by (simp add: init_def)

text \<open>
  C6. A call that raises nothing returns the stdout text itself, no parser applied,
  when the raw flag is set, or stdout is empty, or the dispatcher has no bindings
  (\<^verbatim>\<open>None\<close> or an empty list).
\<close>

theorem C6_stdout_unchanged:
  assumes "exec (dispatch self) args = (0, errlines, out)"
    and "\<forall>x \<in> set errlines. benign x"
    and "kwargs_get_raw kw \<or> out = [] \<or> parsers self = None \<or> parsers self = Some []"
  shows "fst (call exec self args kw) = Inr (Str out)"
proof -
  from assms(2) have clean: "filter (\<lambda>x. \<not> benign x) errlines = []"
    by (simp add: filter_empty_conv)
  from assms(3)
  have "\<not> (\<not> kwargs_get_raw kw \<and> out \<noteq> [] \<and> parsers_truthy (parsers self))"
    by (auto simp: parsers_truthy_def)
  with call_clean [of exec self args errlines out kw, OF assms(1) clean]
  show ?thesis by simp
qed

theorem C6_stdout_unchanged_witness:
  "fst (call (\<lambda>cmd args. (0, [], ''chr1 10 A''))
          (init ''pileup'' (Some [([''-c''], \<lambda>s. Obj (length s))]))
          [''-c'', ''in.bam''] [''raw'' \<mapsto> True])
     = Inr (Str ''chr1 10 A'')
   \<and> fst (call (\<lambda>cmd args. (0, [], []))
          (init ''pileup'' (Some [([''-c''], \<lambda>s. Obj (length s))]))
          [''-c'', ''in.bam''] Map.empty)
     = Inr (Str [])
   \<and> fst (call (\<lambda>cmd args. (0, [], ''chr1 10 A''))
          (init ''view'' None :: nat SamtoolsDispatcher)
          [''-c'', ''in.bam''] Map.empty)
     = Inr (Str ''chr1 10 A'')
   \<and> fst (call (\<lambda>cmd args. (0, [], ''chr1 10 A''))
          (init ''view'' (Some []) :: nat SamtoolsDispatcher)
          [''-c'', ''in.bam''] Map.empty)
     = Inr (Str ''chr1 10 A'')"
  using
    C6_stdout_unchanged
      [of "\<lambda>cmd args. (0, [], ''chr1 10 A'')"
          "init ''pileup'' (Some [([''-c''], \<lambda>s. Obj (length s))])"
          "[''-c'', ''in.bam'']" "[]" "''chr1 10 A''" "[''raw'' \<mapsto> True]"]
    C6_stdout_unchanged
      [of "\<lambda>cmd args. (0, [], [])"
          "init ''pileup'' (Some [([''-c''], \<lambda>s. Obj (length s))])"
          "[''-c'', ''in.bam'']" "[]" "[]" Map.empty]
    C6_stdout_unchanged
      [of "\<lambda>cmd args. (0, [], ''chr1 10 A'')"
          "init ''view'' None :: nat SamtoolsDispatcher"
          "[''-c'', ''in.bam'']" "[]" "''chr1 10 A''" Map.empty]
    C6_stdout_unchanged
      [of "\<lambda>cmd args. (0, [], ''chr1 10 A'')"
          "init ''view'' (Some []) :: nat SamtoolsDispatcher"
          "[''-c'', ''in.bam'']" "[]" "''chr1 10 A''" Map.empty]
  by (simp add: init_def kwargs_get_raw_def)

text \<open>
  C7. With code 0, two stderr outputs that differ only in the order and the places of
  their benign lines (the lines without a benign prefix are the same, in the same
  order, and the benign lines are the same up to order) raise or do not raise
  together, and with the same message when they raise.
\<close>

theorem C7_benign_order_irrelevant:
  assumes "exec1 (dispatch self1) args1 = (0, xs, out1)"
    and "exec2 (dispatch self2) args2 = (0, ys, out2)"
    and "filter (\<lambda>x. \<not> benign x) xs = filter (\<lambda>x. \<not> benign x) ys"
    and "mset (filter benign xs) = mset (filter benign ys)"
  shows "isl (fst (call exec1 self1 args1 kw1)) = isl (fst (call exec2 self2 args2 kw2))
         \<and> (\<forall>e. fst (call exec1 self1 args1 kw1) = Inl e
                  \<longleftrightarrow> fst (call exec2 self2 args2 kw2) = Inl e)"
proof (cases "filter (\<lambda>x. \<not> benign x) xs = []")
  case True
  with assms(3) have "filter (\<lambda>x. \<not> benign x) ys = []"
    by simp
  with call_clean [of exec1 self1 args1 xs out1 kw1, OF assms(1) True]
    call_clean [of exec2 self2 args2 ys out2 kw2, OF assms(2)]
  show ?thesis by simp
next
  case False
  with assms(3) have "filter (\<lambda>x. \<not> benign x) ys \<noteq> []"
    by simp
  with call_suspicious [of exec1 self1 args1 xs out1 kw1, OF assms(1) False]
    call_suspicious [of exec2 self2 args2 ys out2 kw2, OF assms(2)] assms(3)
  show ?thesis by simp
qed

theorem C7_benign_order_irrelevant_witness:
  "filter (\<lambda>x. \<not> benign x) [''[bam_index_load] a'', ''bad 1'', ''[bam_sort_core] b'', ''bad 2'']
     = filter (\<lambda>x. \<not> benign x) [''bad 1'', ''bad 2'', ''[bam_sort_core] b'', ''[bam_index_load] a'']
   \<and> mset (filter benign [''[bam_index_load] a'', ''bad 1'', ''[bam_sort_core] b'', ''bad 2''])
     = mset (filter benign [''bad 1'', ''bad 2'', ''[bam_sort_core] b'', ''[bam_index_load] a''])
   \<and> fst (call (\<lambda>cmd args. (0, [''[bam_index_load] a'', ''bad 1'', ''[bam_sort_core] b'', ''bad 2''], ''x''))
          (init ''sort'' None :: unit SamtoolsDispatcher) [''in.bam''] Map.empty)
     = Inl (SamtoolsError (''bad 1'' @ newline @ ''bad 2''))
   \<and> fst (call (\<lambda>cmd args. (0, [''bad 1'', ''bad 2'', ''[bam_sort_core] b'', ''[bam_index_load] a''], ''x''))
          (init ''sort'' None :: unit SamtoolsDispatcher) [''in.bam''] Map.empty)
     = Inl (SamtoolsError (''bad 1'' @ newline @ ''bad 2''))"
  using C7_benign_order_irrelevant
      [of "\<lambda>cmd args. (0, [''[bam_index_load] a'', ''bad 1'', ''[bam_sort_core] b'', ''bad 2''], ''x'')"
          "init ''sort'' None :: unit SamtoolsDispatcher" "[''in.bam'']"
          "[''[bam_index_load] a'', ''bad 1'', ''[bam_sort_core] b'', ''bad 2'']" "''x''"
          "\<lambda>cmd args. (0, [''bad 1'', ''bad 2'', ''[bam_sort_core] b'', ''[bam_index_load] a''], ''x'')"
          "init ''sort'' None :: unit SamtoolsDispatcher" "[''in.bam'']"
          "[''bad 1'', ''bad 2'', ''[bam_sort_core] b'', ''[bam_index_load] a'']" "''x''"
          Map.empty Map.empty]
  by (simp add: benign_def call_def init_def Let_def)

text \<open>
  C8, as stated, says that \<^verbatim>\<open>getMessages\<close> returns the stderr lines of the most recent
  invocation. After an invocation with code 0 followed by one with code 2, it returns
  the lines of the first, not those of the most recent one.
\<close>

theorem C8_getMessages_not_most_recent:
  "getMessages (call_seq (init ''index'' None :: unit SamtoolsDispatcher)
      [(\<lambda>cmd args. (0, [''[bam_index_load] a''], ''x''), [''a.bam''], Map.empty),
       (\<lambda>cmd args. (2, [''no such file''], []), [''b.bam''], Map.empty)])
     = [''[bam_index_load] a'']
   \<and> getMessages (call_seq (init ''index'' None :: unit SamtoolsDispatcher)
      [(\<lambda>cmd args. (0, [''[bam_index_load] a''], ''x''), [''a.bam''], Map.empty),
       (\<lambda>cmd args. (2, [''no such file''], []), [''b.bam''], Map.empty)])
     \<noteq> [''no such file'']"
  by (simp add: getMessages_def call_stderr call_dispatch init_def)

text \<open>
  C8, amended. After any sequence of invocations, \<^verbatim>\<open>getMessages\<close> returns the stderr
  lines, unfiltered (the benign lines included), of the most recent invocation whose
  executor returned code 0, and what it returned before the sequence when there is no
  such invocation.
\<close>

theorem C8_getMessages_latest_zero_exit:
  "getMessages (call_seq self invs) =
     (case latest_zero_exit (dispatch self) invs of
        None \<Rightarrow> getMessages self
      | Some errlines \<Rightarrow> errlines)"
proof (induction invs rule: rev_induct)
  case Nil
  show ?case by (simp add: latest_zero_exit_def)
next
  case (snoc inv invs)
  obtain exec args kw where inv: "inv = (exec, args, kw)"
    by (cases inv)
  have step: "getMessages (call_seq self (invs @ [inv])) =
      (if fst (exec (dispatch self) args) = 0 then fst (snd (exec (dispatch self) args))
       else getMessages (call_seq self invs))"
    by (simp add: inv getMessages_def call_seq_snoc call_stderr call_seq_dispatch)
  show ?case
  proof (cases "fst (exec (dispatch self) args) = 0")
    case True
    with step show ?thesis
      by (simp add: inv latest_zero_exit_def)
  next
    case False
    with step snoc.IH show ?thesis
      by (simp add: inv latest_zero_exit_def)
  qed
qed

theorem C8_getMessages_latest_zero_exit_witness:
  "getMessages (call_seq (init ''index'' None :: unit SamtoolsDispatcher)
      [(\<lambda>cmd args. (0, [''old''], []), [''z.bam''], Map.empty),
       (\<lambda>cmd args. (0, [''[bam_index_load] a'', ''bad 1''], ''x''), [''a.bam''], Map.empty),
       (\<lambda>cmd args. (2, [''no such file''], []), [''b.bam''], Map.empty)])
     = [''[bam_index_load] a'', ''bad 1'']"
  using C8_getMessages_latest_zero_exit
      [of "init ''index'' None :: unit SamtoolsDispatcher"
          "[(\<lambda>cmd args. (0, [''old''], []), [''z.bam''], Map.empty),
            (\<lambda>cmd args. (0, [''[bam_index_load] a'', ''bad 1''], ''x''), [''a.bam''], Map.empty),
            (\<lambda>cmd args. (2, [''no such file''], []), [''b.bam''], Map.empty)]"]
  by (simp add: latest_zero_exit_def)

text \<open>
  C9. \<^verbatim>\<open>usage\<close> calls the executor with the dispatcher's command identifier and the
  empty argument tuple and returns the stderr lines joined with nothing between them;
  whatever the executor's answer (any code, any lines, any stdout) and whatever the
  dispatcher's parsers, it raises nothing and the value is that text.
\<close>

theorem C9_usage_returns_joined_stderr:
  "fst (usage exec self) = Inr (concat (fst (snd (exec (dispatch self) []))))"
  by (cases "exec (dispatch self) []") (simp add: usage_def join_empty_sep)

theorem C9_usage_returns_joined_stderr_witness:
  "fst (usage (\<lambda>cmd args. if cmd = ''pileup'' \<and> args = []
                             then (1, [''Usage: samtools pileup'', '' [options]''], ''ignored'')
                             else (0, [], []))
          (init ''pileup'' (Some [([], \<lambda>s. Obj (length s))])))
     = Inr ''Usage: samtools pileup [options]''"
  using C9_usage_returns_joined_stderr
      [of "\<lambda>cmd args. if cmd = ''pileup'' \<and> args = []
                         then (1, [''Usage: samtools pileup'', '' [options]''], ''ignored'')
                         else (0, [], [])"
          "init ''pileup'' (Some [([], \<lambda>s. Obj (length s))])"]
  by (simp add: init_def)

text \<open>
  C10. \<^verbatim>\<open>usage\<close> assigns no attribute: for every dispatcher and every executor,
  \<^verbatim>\<open>getMessages\<close> returns after the call what it returned before.
\<close>

theorem C10_usage_keeps_messages:
  "getMessages (snd (usage exec self)) = getMessages self"
  by (cases "exec (dispatch self) []") (simp add: usage_def)

theorem C10_usage_keeps_messages_witness:
  "getMessages (snd (usage (\<lambda>cmd args. (1, [''Usage: samtools view''], []))
                       ((init ''view'' None :: unit SamtoolsDispatcher)\<lparr>stderr := [''old'']\<rparr>)))
     = [''old'']"
  using C10_usage_keeps_messages
      [of "\<lambda>cmd args. (1, [''Usage: samtools view''], [])"
          "(init ''view'' None :: unit SamtoolsDispatcher)\<lparr>stderr := [''old'']\<rparr>"]
  by (simp add: getMessages_def init_def)

end
